theory Spec2Isabelle
  imports Complex_Main
begin

section \<open>Monte-Carlo agent: actor worker, curriculum, replay buffers, schedules\<close>

text \<open>
  The development follows \<^verbatim>\<open>agents/mc_agent.py\<close>. Python floats are modelled by
  \<^typ>\<open>real\<close> (exact arithmetic, no rounding), Python integers by \<^typ>\<open>int\<close>, a
  bounded channel by the list of the items put on it, in the order of the puts.
\<close>

subsection \<open>Errors\<close>

datatype py_error =
    NotImplementedError
  | AssertionError
  | IndexError
  | ValueError
  | ZeroDivisionError
  | Fault string

text \<open>Subscripting a Python sequence, \<^verbatim>\<open>seq[idx]\<close>: positions \<open>0 .. len - 1\<close> read
  from the front, positions \<open>- len .. - 1\<close> from the back, and every other position is
  an \<^verbatim>\<open>IndexError\<close>.\<close>

definition getitem :: "'a list \<Rightarrow> int \<Rightarrow> py_error + 'a" where
  "getitem seq idx =
     (if 0 \<le> idx \<and> idx < int (length seq) then Inr (seq ! nat idx)
      else if idx < 0 \<and> - int (length seq) \<le> idx then Inr (seq ! nat (int (length seq) + idx))
      else Inl IndexError)"

subsection \<open>Actor worker: labelling a finished trajectory\<close>

text \<open>
  \<^verbatim>\<open>
  for observation, action, reward in reversed(transitions):
      cum_return = cum_return * discount + reward
      transition_queue.put((observation, action, cum_return))
  outcome_queue.put(cum_return)
  \<close>
  \<open>push_returns\<close> is the \<^verbatim>\<open>for\<close> loop over an already reversed trajectory; its
  state is the pair of \<^verbatim>\<open>cum_return\<close> and the transition channel.
\<close>

fun push_returns ::
  "real \<Rightarrow> ('o \<times> 'a \<times> real) list \<Rightarrow> real \<times> ('o \<times> 'a \<times> real) list
     \<Rightarrow> real \<times> ('o \<times> 'a \<times> real) list" where
  "push_returns discount [] (cum_return, transition_queue) = (cum_return, transition_queue)"
| "push_returns discount ((observation, action, reward) # rest) (cum_return, transition_queue) =
     (let cum_return' = cum_return * discount + reward
      in push_returns discount rest
           (cum_return', transition_queue @ [(observation, action, cum_return')]))"

definition finish_episode ::
  "real \<Rightarrow> ('o \<times> 'a \<times> real) list \<Rightarrow> ('o \<times> 'a \<times> real) list \<Rightarrow> real list
     \<Rightarrow> ('o \<times> 'a \<times> real) list \<times> real list \<times> real" where
  "finish_episode discount transitions transition_queue outcome_queue =
     (case push_returns discount (rev transitions) (0, transition_queue) of
        (cum_return, transition_queue') \<Rightarrow>
          (transition_queue', outcome_queue @ [cum_return], cum_return))"





subsection \<open>Action selection\<close>

text \<open>
  \<^verbatim>\<open>preprocess_observation\<close> and \<^verbatim>\<open>act\<close> (the worker's and \<^verbatim>\<open>MCAgent\<close>'s are the
  same code). An observation is the tuple of arrays that the environment returns; what
  the network is called with is either a tuple or, after \<^verbatim>\<open>observation[0]\<close>, a single
  array.
\<close>

datatype action_space = Discrete int | MaskDiscrete int | OtherSpace

datatype 'x network_input = Single 'x | Tuple "'x list"

definition preprocess_observation ::
  "action_space \<Rightarrow> 'x list \<Rightarrow> py_error + 'x network_input \<times> 'x option" where
  "preprocess_observation sp observation =
     (case sp of
        MaskDiscrete n \<Rightarrow>
          (if observation = [] then Inl IndexError
           else let action_mask = last observation;
                    observation' = butlast observation
                in Inr (if length observation' = 1 then Single (hd observation')
                        else Tuple observation',
                        Some action_mask))
      | Discrete n \<Rightarrow> Inr (Tuple observation, None)
      | OtherSpace \<Rightarrow> Inr (Tuple observation, None))"

text \<open>Action values after \<^verbatim>\<open>q[action_mask == 0] = float('-inf')\<close>: the network's
  values are finite, a masked entry is minus infinity.\<close>

datatype qvalue = NegInf | Fin real

fun qless :: "qvalue \<Rightarrow> qvalue \<Rightarrow> bool" where
  "qless NegInf (Fin y) = True"
| "qless (Fin x) (Fin y) = (x < y)"
| "qless v NegInf = False"

definition mask_fill :: "real list list \<Rightarrow> real list list option \<Rightarrow> py_error + qvalue list list" where
  "mask_fill q action_mask =
     (case action_mask of
        None \<Rightarrow> Inr (map (map Fin) q)
      | Some mask_rows \<Rightarrow>
          if map length mask_rows = map length q
          then Inr (map2 (\<lambda>row mask_row. map2 (\<lambda>v m. if m = 0 then NegInf else Fin v) row mask_row)
                      q mask_rows)
          else Inl (Fault ''mask shape''))"

text \<open>\<^verbatim>\<open>max(1)[1]\<close> of one row: the position of the first greatest value.\<close>

fun argmax :: "qvalue list \<Rightarrow> nat" where
  "argmax [] = 0"
| "argmax [x] = 0"
| "argmax (x # y # ys) =
     (let j = argmax (y # ys) in if qless x ((y # ys) ! j) then Suc j else 0)"

text \<open>\<^verbatim>\<open>np.nonzero(action_mask)[0]\<close>: the positions of the non-zero entries, ascending.\<close>

definition nonzero :: "real list \<Rightarrow> nat list" where
  "nonzero action_mask = filter (\<lambda>i. action_mask ! i \<noteq> 0) [0..<length action_mask]"

text \<open>
  What \<^verbatim>\<open>act\<close> returns: the greedy action, or what \<^verbatim>\<open>action_space.sample\<close> returns
  for the arguments shown (the spaces' \<^verbatim>\<open>sample\<close> methods are not part of this file, so
  the call is the result). \<open>u\<close> is the draw \<^verbatim>\<open>random.uniform(0, 1)\<close>;
  \<^verbatim>\<open>np.expand_dims(array, 0)\<close> turns an array into a batch of one row.
\<close>

datatype selection = Action nat | SampleFrom "nat list" | SampleAny

definition act ::
  "action_space \<Rightarrow> (real list list network_input \<Rightarrow> real list list) \<Rightarrow> real
     \<Rightarrow> real list list \<Rightarrow> real \<Rightarrow> py_error + selection" where
  "act sp q_network u observation eps =
     (if u \<ge> eps then
        (case preprocess_observation sp (map (\<lambda>array. [array]) observation) of
           Inl e \<Rightarrow> Inl e
         | Inr (observation', action_mask) \<Rightarrow>
             (case mask_fill (q_network observation') action_mask of
                Inl e \<Rightarrow> Inl e
              | Inr q \<Rightarrow>
                  (case q of
                     [] \<Rightarrow> Inl IndexError
                   | row # rows \<Rightarrow>
                       if row = [] then Inl (Fault ''max of an empty row'')
                       else Inr (Action (argmax row)))))
      else
        (case preprocess_observation sp observation of
           Inl e \<Rightarrow> Inl e
         | Inr (observation', action_mask) \<Rightarrow>
             (case action_mask of
                Some valid \<Rightarrow> Inr (SampleFrom (nonzero valid))
              | None \<Rightarrow> Inr SampleAny)))"

subsection \<open>Actor worker: running episodes\<close>

text \<open>
  The collaborators of \<^verbatim>\<open>actor_worker\<close>: the environment factory and the environment's
  \<^verbatim>\<open>reset\<close>, \<^verbatim>\<open>step\<close> and \<^verbatim>\<open>close\<close> (the environment object is the state \<open>'e\<close>,
  passed along), and the worker's own \<^verbatim>\<open>act(observation, eps)\<close>. Each of them can
  raise.
\<close>

record ('d, 'e, 'o, 'a) collaborators =
  env_create_fn :: "'d \<Rightarrow> int \<Rightarrow> py_error + 'e"
  env_reset :: "'e \<Rightarrow> py_error + 'e \<times> 'o"
  env_step :: "'e \<Rightarrow> 'a \<Rightarrow> py_error + 'e \<times> 'o \<times> real \<times> bool"
  env_close :: "'e \<Rightarrow> py_error + unit"
  policy :: "'o \<Rightarrow> real \<Rightarrow> py_error + 'a"

text \<open>What one episode reads from outside: the clock (\<^verbatim>\<open>int(time.time() * 1000)\<close>), the
  two shared cells, and the position \<^verbatim>\<open>random.choice\<close> picks (reduced into range).\<close>

record episode_inputs =
  clock_ms :: int
  cur_difficulty_idx_value :: int
  current_eps_value :: real
  choice :: nat

definition random_seed :: "int \<Rightarrow> int \<Rightarrow> int" where
  "random_seed pid now_ms = (pid * 11111111 + now_ms) mod 2 ^ 32"

definition random_choice :: "nat \<Rightarrow> 'd list \<Rightarrow> py_error + 'd" where
  "random_choice pick xs = (if xs = [] then Inl IndexError else Inr (xs ! (pick mod length xs)))"

text \<open>
  \<^verbatim>\<open>
  while not done:
      action = act(observation, eps=current_eps.value)
      next_observation, reward, done, _ = env.step(action)
      transitions.append((observation, action, reward))
      observation = next_observation
  \<close>
  The loop ends only when the environment says so; the first argument bounds the number
  of iterations unfolded, and \<open>None\<close> is the loop still running after that many.
\<close>

fun run_steps ::
  "nat \<Rightarrow> ('d, 'e, 'o, 'a) collaborators \<Rightarrow> real \<Rightarrow> 'e \<Rightarrow> 'o \<Rightarrow> ('o \<times> 'a \<times> real) list
     \<Rightarrow> (py_error + ('o \<times> 'a \<times> real) list \<times> 'e) option" where
  "run_steps 0 w eps env observation transitions = None"
| "run_steps (Suc n) w eps env observation transitions =
     (case policy w observation eps of
        Inl e \<Rightarrow> Some (Inl e)
      | Inr action \<Rightarrow>
          (case env_step w env action of
             Inl e \<Rightarrow> Some (Inl e)
           | Inr (env', next_observation, reward, done) \<Rightarrow>
               if done then Some (Inr (transitions @ [(observation, action, reward)], env'))
               else run_steps n w eps env' next_observation
                      (transitions @ [(observation, action, reward)])))"

text \<open>The part of an episode before the trajectory is labelled: choose the difficulty,
  create and reset the environment, run the steps.\<close>

definition collect_trajectory ::
  "nat \<Rightarrow> ('d, 'e, 'o, 'a) collaborators \<Rightarrow> int \<Rightarrow> 'd list \<Rightarrow> bool \<Rightarrow> episode_inputs
     \<Rightarrow> (py_error + ('o \<times> 'a \<times> real) list \<times> 'e) option" where
  "collect_trajectory fuel w pid difficulties use_curriculum inp =
     (case (if use_curriculum then getitem difficulties (cur_difficulty_idx_value inp)
            else random_choice (choice inp) difficulties) of
        Inl e \<Rightarrow> Some (Inl e)
      | Inr cur_difficulty \<Rightarrow>
          (case env_create_fn w cur_difficulty (random_seed pid (clock_ms inp)) of
             Inl e \<Rightarrow> Some (Inl e)
           | Inr env0 \<Rightarrow>
               (case env_reset w env0 of
                  Inl e \<Rightarrow> Some (Inl e)
                | Inr (env, observation) \<Rightarrow>
                    run_steps fuel w (current_eps_value inp) env observation [])))"

datatype episode_end = Completed | Raised py_error | StillStepping

definition run_episode ::
  "nat \<Rightarrow> ('d, 'e, 'o, 'a) collaborators \<Rightarrow> int \<Rightarrow> 'd list \<Rightarrow> real \<Rightarrow> bool \<Rightarrow> episode_inputs
     \<Rightarrow> ('o \<times> 'a \<times> real) list \<Rightarrow> real list
     \<Rightarrow> ('o \<times> 'a \<times> real) list \<times> real list \<times> episode_end" where
  "run_episode fuel w pid difficulties discount use_curriculum inp transition_queue outcome_queue =
     (case collect_trajectory fuel w pid difficulties use_curriculum inp of
        None \<Rightarrow> (transition_queue, outcome_queue, StillStepping)
      | Some (Inl e) \<Rightarrow> (transition_queue, outcome_queue, Raised e)
      | Some (Inr (transitions, env)) \<Rightarrow>
          (case finish_episode discount transitions transition_queue outcome_queue of
             (transition_queue', outcome_queue', cum_return) \<Rightarrow>
               (case env_close w env of
                  Inl e \<Rightarrow> (transition_queue', outcome_queue', Raised e)
                | Inr u \<Rightarrow> (transition_queue', outcome_queue', Completed))))"

text \<open>
  The worker's \<^verbatim>\<open>while True\<close> loop, unfolded once per element of the list of episode
  inputs. There is no \<^verbatim>\<open>try\<close> in \<^verbatim>\<open>actor_worker\<close>: an exception of an episode leaves
  the loop and ends the process. The result is the two channels, \<^verbatim>\<open>episode_id\<close>, and
  how the worker stands.
\<close>

datatype worker_status = Looping | Terminated py_error | InsideEpisode

fun actor_worker ::
  "nat \<Rightarrow> ('d, 'e, 'o, 'a) collaborators \<Rightarrow> int \<Rightarrow> 'd list \<Rightarrow> real \<Rightarrow> bool
     \<Rightarrow> episode_inputs list \<Rightarrow> int \<Rightarrow> ('o \<times> 'a \<times> real) list \<Rightarrow> real list
     \<Rightarrow> ('o \<times> 'a \<times> real) list \<times> real list \<times> int \<times> worker_status" where
  "actor_worker fuel w pid difficulties discount use_curriculum [] episode_id
       transition_queue outcome_queue =
     (transition_queue, outcome_queue, episode_id, Looping)"
| "actor_worker fuel w pid difficulties discount use_curriculum (inp # rest) episode_id
       transition_queue outcome_queue =
     (case run_episode fuel w pid difficulties discount use_curriculum inp
             transition_queue outcome_queue of
        (transition_queue', outcome_queue', Completed) \<Rightarrow>
          actor_worker fuel w pid difficulties discount use_curriculum rest (episode_id + 1)
            transition_queue' outcome_queue'
      | (transition_queue', outcome_queue', Raised e) \<Rightarrow>
          (transition_queue', outcome_queue', episode_id + 1, Terminated e)
      | (transition_queue', outcome_queue', StillStepping) \<Rightarrow>
          (transition_queue', outcome_queue', episode_id + 1, InsideEpisode))"

text \<open>An environment to evaluate on: its state counts the steps taken, an episode ends
  with the third step, and \<open>failing_env\<close> raises in every step.\<close>

definition counting_env :: "(string, nat, nat, nat) collaborators" where
  "counting_env =
     \<lparr>env_create_fn = (\<lambda>cur_difficulty seed. Inr 0),
      env_reset = (\<lambda>env. Inr (0, 0)),
      env_step = (\<lambda>env action. Inr (Suc env, Suc env, 1, Suc env = 3)),
      env_close = (\<lambda>env. Inr ()),
      policy = (\<lambda>observation eps. Inr 0)\<rparr>"

definition failing_env :: "(string, nat, nat, nat) collaborators" where
  "failing_env = counting_env\<lparr>env_step := (\<lambda>env action. Inl (Fault ''step''))\<rparr>"

subsection \<open>Bounded double-ended queue\<close>

text \<open>
  \<^verbatim>\<open>collections.deque(maxlen=n)\<close>: \<^verbatim>\<open>append\<close> adds on the right and, when the
  length then exceeds \<^verbatim>\<open>maxlen\<close>, drops the leftmost item; a negative \<^verbatim>\<open>maxlen\<close>
  is a \<^verbatim>\<open>ValueError\<close>.
\<close>

record 'a deque =
  maxlen :: nat
  items :: "'a list"

definition deque_new :: "int \<Rightarrow> py_error + 'a deque" where
  "deque_new n = (if n < 0 then Inl ValueError else Inr \<lparr>maxlen = nat n, items = []\<rparr>)"

definition deque_append :: "'a deque \<Rightarrow> 'a \<Rightarrow> 'a deque" where
  "deque_append d x =
     d\<lparr>items := (let xs = items d @ [x] in if maxlen d < length xs then tl xs else xs)\<rparr>"

definition deque_clear :: "'a deque \<Rightarrow> 'a deque" where
  "deque_clear d = d\<lparr>items := []\<rparr>"

definition deque_len :: "'a deque \<Rightarrow> int" where
  "deque_len d = int (length (items d))"

subsection \<open>The agent and its constructor\<close>

text \<open>The arguments of \<^verbatim>\<open>MCAgent.__init__\<close> that the modelled methods read (the
  network, the optimizer's hyperparameters and the checkpoint and reporting settings are
  left out).\<close>

record 'd init_args =
  action_space :: action_space
  optimizer_type :: string
  batch_size :: int
  discount :: real
  eps_method :: string
  eps_start :: real
  eps_end :: real
  eps_decay :: real
  eps_decay2 :: real
  memory_size :: int
  init_memory_size :: int
  frame_step_ratio :: real
  target_update_freq :: int
  winning_rate_threshold :: real
  difficulties :: "'d list"
  loss_type :: string

datatype optimizer = RMSprop | Adam | SGD

text \<open>The attributes of the constructed object; \<open>self_x\<close> is \<^verbatim>\<open>self._x\<close>. The two
  shared cells \<^verbatim>\<open>_current_eps\<close> and \<^verbatim>\<open>_cur_difficulty_idx\<close> hold their
  \<^verbatim>\<open>.value\<close>. The index cell is a C \<^verbatim>\<open>int\<close>; it is only ever raised to a value
  below \<^verbatim>\<open>len(self._difficulties)\<close>, so it is modelled by an integer without
  wrap-around.\<close>

record 'd agent =
  self_batch_size :: int
  self_discount :: real
  self_eps_method :: string
  self_eps_start :: real
  self_eps_end :: real
  self_eps_decay :: real
  self_eps_decay2 :: real
  self_frame_step_ratio :: real
  self_target_update_freq :: int
  self_action_space :: action_space
  self_memory_size :: int
  self_init_memory_size :: int
  self_loss_type :: string
  self_current_eps :: real
  self_num_threads :: int
  self_winning_rate_threshold :: real
  self_difficulties :: "'d list"
  self_cur_difficulty_idx :: int
  self_recent_outcomes :: "real deque"
  self_optimizer :: optimizer

definition is_supported_space :: "action_space \<Rightarrow> bool" where
  "is_supported_space sp = (case sp of Discrete n \<Rightarrow> True | MaskDiscrete n \<Rightarrow> True | OtherSpace \<Rightarrow> False)"

definition make_optimizer :: "string \<Rightarrow> py_error + optimizer" where
  "make_optimizer kind =
     (if kind = ''rmsprop'' then Inr RMSprop
      else if kind = ''adam'' then Inr Adam
      else if kind = ''sgd'' then Inr SGD
      else Inl NotImplementedError)"

definition MCAgent_init :: "'d init_args \<Rightarrow> py_error + 'd agent" where
  "MCAgent_init args =
     (if \<not> is_supported_space (action_space args) then Inl AssertionError
      else case make_optimizer (optimizer_type args) of
        Inl e \<Rightarrow> Inl e
      | Inr opt \<Rightarrow> Inr
         \<lparr>self_batch_size = batch_size args,
          self_discount = discount args,
          self_eps_method = eps_method args,
          self_eps_start = eps_start args,
          self_eps_end = eps_end args,
          self_eps_decay = eps_decay args,
          self_eps_decay2 = eps_decay2 args,
          self_frame_step_ratio = frame_step_ratio args,
          self_target_update_freq = target_update_freq args,
          self_action_space = action_space args,
          self_memory_size = memory_size args,
          self_init_memory_size = max (init_memory_size args) (batch_size args),
          self_loss_type = loss_type args,
          self_current_eps = eps_start args,
          self_num_threads = 4,
          self_winning_rate_threshold = winning_rate_threshold args,
          self_difficulties = difficulties args,
          self_cur_difficulty_idx = 0,
          self_recent_outcomes = \<lparr>maxlen = 1000, items = []\<rparr>,
          self_optimizer = opt\<rparr>)"

subsection \<open>Exploration-rate schedule\<close>

text \<open>\<^verbatim>\<open>MCAgent._get_current_eps\<close>. Every \<^verbatim>\<open>/\<close> is Python 3's true division, which
  raises \<^verbatim>\<open>ZeroDivisionError\<close> on a zero divisor.\<close>

definition get_current_eps :: "'d agent \<Rightarrow> int \<Rightarrow> py_error + real" where
  "get_current_eps self steps =
     (if self_eps_method self = ''exponential'' then
        (if self_eps_decay self = 0 then Inl ZeroDivisionError
         else Inr (self_eps_end self + (self_eps_start self - self_eps_end self) *
                     exp (-1 * real_of_int steps / self_eps_decay self)))
      else if self_eps_method self = ''linear'' then
        (if real_of_int steps < self_eps_decay self then
           (if self_eps_decay self = 0 then Inl ZeroDivisionError
            else Inr (self_eps_start self - (self_eps_start self - self_eps_end self) *
                        real_of_int steps / self_eps_decay self))
         else if real_of_int steps < self_eps_decay2 self then
           (if self_eps_decay2 self = 0 then Inl ZeroDivisionError
            else Inr (self_eps_end self - (self_eps_end self - 0.01) *
                        (real_of_int steps - self_eps_decay self) / self_eps_decay2 self))
         else Inr 0.01)
      else Inl NotImplementedError)"

subsection \<open>Curriculum controller\<close>

text \<open>
  \<^verbatim>\<open>MCAgent._update_curriculum_difficulty\<close>. \<open>drained\<close> is the sequence of outcomes that
  the \<^verbatim>\<open>while not self._outcome_queue.empty()\<close> loop takes from the outcome channel in
  this call. The result is the object after the call and the exception that left the
  call, if any: the appends are done before anything can raise. The \<^verbatim>\<open>print\<close> reads
  \<^verbatim>\<open>self._difficulties[self._cur_difficulty_idx.value]\<close> before the threshold test.
\<close>

definition winning_rate :: "real list \<Rightarrow> real" where
  "winning_rate outcomes = (sum_list outcomes / real (length outcomes) + 1.0) / 2.0"

definition update_curriculum_difficulty ::
  "'d agent \<Rightarrow> real list \<Rightarrow> 'd agent \<times> py_error option" where
  "update_curriculum_difficulty self drained =
     (let has_new_outcome = (drained \<noteq> []);
          self1 = self\<lparr>self_recent_outcomes := foldl deque_append (self_recent_outcomes self) drained\<rparr>;
          recent = self_recent_outcomes self1
      in if has_new_outcome \<and> deque_len recent = int (maxlen recent) then
           (if deque_len recent = 0 then (self1, Some ZeroDivisionError)
            else case getitem (self_difficulties self1) (self_cur_difficulty_idx self1) of
              Inl e \<Rightarrow> (self1, Some e)
            | Inr shown \<Rightarrow>
                if winning_rate (items recent) \<ge> self_winning_rate_threshold self1 \<and>
                   int (length (self_difficulties self1)) > self_cur_difficulty_idx self1 + 1
                then (self1\<lparr>self_cur_difficulty_idx := self_cur_difficulty_idx self1 + 1,
                            self_recent_outcomes := deque_clear recent\<rparr>, None)
                else (self1, None))
         else (self1, None))"


subsection \<open>Learner loop\<close>

text \<open>
  \<^verbatim>\<open>MCAgent._init_parallel_actors\<close> starts the actor processes and then the batch
  threads; \<^verbatim>\<open>MCAgent.learn\<close> calls it and then loops. The loop is unfolded once per
  element of its input list, which holds what each iteration drains from the outcome
  channel. Of \<^verbatim>\<open>_optimize\<close> only the dispatch on the loss kind is modelled; reporting
  and checkpointing are left out. The trace records what has happened so far.
\<close>

datatype event =
    ActorStarted nat
  | BatchThreadStarted nat
  | TargetUpdated
  | Optimized

definition init_parallel_actors :: "'d agent \<Rightarrow> nat \<Rightarrow> event list" where
  "init_parallel_actors self num_actor_workers =
     map ActorStarted [0..<num_actor_workers] @
     map BatchThreadStarted [0..<nat (self_num_threads self)]"

definition optimize :: "'d agent \<Rightarrow> py_error + unit" where
  "optimize self =
     (if self_loss_type self = ''smooth_l1'' then Inr ()
      else if self_loss_type self = ''mse'' then Inr ()
      else Inl NotImplementedError)"

fun learn_loop ::
  "'d agent \<Rightarrow> int \<Rightarrow> real list list \<Rightarrow> event list \<Rightarrow> 'd agent \<times> event list \<times> py_error option" where
  "learn_loop self steps [] trace = (self, trace, None)"
| "learn_loop self steps (drained # rest) trace =
     (if self_target_update_freq self = 0 then (self, trace, Some ZeroDivisionError)
      else
        let trace1 = (if steps mod self_target_update_freq self = 0
                      then trace @ [TargetUpdated] else trace)
        in case get_current_eps self steps of
             Inl e \<Rightarrow> (self, trace1, Some e)
           | Inr eps \<Rightarrow>
               (case update_curriculum_difficulty (self\<lparr>self_current_eps := eps\<rparr>) drained of
                  (self2, Some e) \<Rightarrow> (self2, trace1, Some e)
                | (self2, None) \<Rightarrow>
                    (case optimize self2 of
                       Inl e \<Rightarrow> (self2, trace1, Some e)
                     | Inr u \<Rightarrow> learn_loop self2 (steps + 1) rest (trace1 @ [Optimized]))))"

definition learn ::
  "'d agent \<Rightarrow> nat \<Rightarrow> real list list \<Rightarrow> 'd agent \<times> event list \<times> py_error option" where
  "learn self num_actor_workers drains =
     learn_loop self 0 drains (init_parallel_actors self num_actor_workers)"

subsection \<open>Batch assembler\<close>

text \<open>\<^verbatim>\<open>int(x)\<close> of a float: truncation towards zero.\<close>

definition py_int :: "real \<Rightarrow> int" where
  "py_int x = (if 0 \<le> x then \<lfloor>x\<rfloor> else \<lceil>x\<rceil>)"

text \<open>
  The code of \<^verbatim>\<open>MCAgent._prepare_batch\<close> before its loop: the thread's own buffer, and
  either \<^verbatim>\<open>steps_per_frame\<close> or \<^verbatim>\<open>frames_per_step\<close>.
\<close>

datatype pacing = StepsPerFrame int | FramesPerStep int

definition prepare_batch_setup :: "'d agent \<Rightarrow> py_error + 't deque \<times> pacing" where
  "prepare_batch_setup self =
     (if self_num_threads self = 0 then Inl ZeroDivisionError
      else case deque_new (py_int (real_of_int (self_memory_size self) /
                                     real_of_int (self_num_threads self))) of
        Inl e \<Rightarrow> Inl e
      | Inr memory \<Rightarrow>
          if self_frame_step_ratio self < 1 then
            (if self_frame_step_ratio self = 0 then Inl ZeroDivisionError
             else Inr (memory, StepsPerFrame (py_int (1 / self_frame_step_ratio self))))
          else Inr (memory, FramesPerStep (py_int (self_frame_step_ratio self))))"

text \<open>
  \<^verbatim>\<open>for i in range(k): memory.append(self._transition_queue.get())\<close> against the
  transitions that the channel will deliver; the flag says that \<^verbatim>\<open>get\<close> found the
  channel empty and the thread is waiting there.
\<close>

fun get_frames :: "nat \<Rightarrow> 't deque \<Rightarrow> 't list \<Rightarrow> 't deque \<times> 't list \<times> bool" where
  "get_frames 0 memory transition_queue = (memory, transition_queue, False)"
| "get_frames (Suc k) memory [] = (memory, [], True)"
| "get_frames (Suc k) memory (x # transition_queue) =
     get_frames k (deque_append memory x) transition_queue"

text \<open>
  \<^verbatim>\<open>random.sample(population, k)\<close> raises \<^verbatim>\<open>ValueError\<close> unless
  \<open>0 \<le> k \<le> len(population)\<close>; otherwise it returns the items at \<open>k\<close> distinct
  positions. \<open>picks\<close> are the positions the generator selects.
\<close>

definition random_sample :: "nat list \<Rightarrow> 't list \<Rightarrow> int \<Rightarrow> py_error + 't list" where
  "random_sample picks population k =
     (if 0 \<le> k \<and> k \<le> int (length population)
      then Inr (map (\<lambda>i. population ! i) picks)
      else Inl ValueError)"

text \<open>\<^verbatim>\<open>_transitions_to_batch\<close>: \<^verbatim>\<open>zip(*transitions)\<close> is unpacked into three columns,
  which fails on an empty sample; the conversion to tensors is left out.\<close>

definition transitions_to_batch ::
  "('o \<times> 'a \<times> real) list \<Rightarrow> py_error + 'o list \<times> 'a list \<times> real list" where
  "transitions_to_batch transitions =
     (if transitions = [] then Inl ValueError
      else Inr (map fst transitions, map (\<lambda>t. fst (snd t)) transitions,
                map (\<lambda>t. snd (snd t)) transitions))"

datatype ('o, 'a) iteration_end =
    NotWarm
  | BatchPut "'o list \<times> 'a list \<times> real list"
  | WaitingForTransition
  | Failed py_error

text \<open>One iteration of the \<^verbatim>\<open>while True\<close> loop. The state is the buffer, the counter
  \<^verbatim>\<open>steps\<close> and the transitions still to be delivered.\<close>

definition prepare_batch_iteration ::
  "'d agent \<Rightarrow> pacing \<Rightarrow> nat list
     \<Rightarrow> ('o \<times> 'a \<times> real) deque \<times> int \<times> ('o \<times> 'a \<times> real) list
     \<Rightarrow> (('o \<times> 'a \<times> real) deque \<times> int \<times> ('o \<times> 'a \<times> real) list) \<times> ('o, 'a) iteration_end" where
  "prepare_batch_iteration self pace picks state =
     (case state of (memory, steps0, transition_queue) \<Rightarrow>
        let steps = steps0 + 1 in
        case (case pace of
                StepsPerFrame steps_per_frame \<Rightarrow>
                  if steps_per_frame = 0 then Inl ZeroDivisionError
                  else Inr (if steps mod steps_per_frame = 0 then 1 else 0)
              | FramesPerStep frames_per_step \<Rightarrow> Inr (nat frames_per_step)) of
          Inl e \<Rightarrow> ((memory, steps, transition_queue), Failed e)
        | Inr k \<Rightarrow>
            (case get_frames k memory transition_queue of
               (memory', transition_queue', True) \<Rightarrow>
                 ((memory', steps, transition_queue'), WaitingForTransition)
             | (memory', transition_queue', False) \<Rightarrow>
                 if real (length (items memory')) <
                      real_of_int (self_init_memory_size self) / real_of_int (self_num_threads self)
                 then ((memory', steps, transition_queue'), NotWarm)
                 else
                   (case random_sample picks (items memory') (self_batch_size self) of
                      Inl e \<Rightarrow> ((memory', steps, transition_queue'), Failed e)
                    | Inr transitions \<Rightarrow>
                        (case transitions_to_batch transitions of
                           Inl e \<Rightarrow> ((memory', steps, transition_queue'), Failed e)
                         | Inr batch \<Rightarrow> ((memory', steps, transition_queue'), BatchPut batch)))))"

datatype thread_status = Iterating | WaitingOnGet | Died py_error

text \<open>The loop, unfolded once per element of the list of the generator's picks. An
  exception ends the thread; an empty transition channel leaves it waiting.\<close>

fun prepare_batch_loop ::
  "'d agent \<Rightarrow> pacing \<Rightarrow> nat list list
     \<Rightarrow> ('o \<times> 'a \<times> real) deque \<times> int \<times> ('o \<times> 'a \<times> real) list
     \<Rightarrow> ('o list \<times> 'a list \<times> real list) list
     \<Rightarrow> (('o \<times> 'a \<times> real) deque \<times> int \<times> ('o \<times> 'a \<times> real) list)
          \<times> ('o list \<times> 'a list \<times> real list) list \<times> thread_status" where
  "prepare_batch_loop self pace [] state batch_queue = (state, batch_queue, Iterating)"
| "prepare_batch_loop self pace (picks # rest) state batch_queue =
     (case prepare_batch_iteration self pace picks state of
        (state', NotWarm) \<Rightarrow> prepare_batch_loop self pace rest state' batch_queue
      | (state', BatchPut batch) \<Rightarrow>
          prepare_batch_loop self pace rest state' (batch_queue @ [batch])
      | (state', WaitingForTransition) \<Rightarrow> (state', batch_queue, WaitingOnGet)
      | (state', Failed e) \<Rightarrow> (state', batch_queue, Died e))"

definition prepare_batch ::
  "'d agent \<Rightarrow> nat list list \<Rightarrow> ('o \<times> 'a \<times> real) list
     \<Rightarrow> py_error + (('o \<times> 'a \<times> real) deque \<times> int \<times> ('o \<times> 'a \<times> real) list)
          \<times> ('o list \<times> 'a list \<times> real list) list \<times> thread_status" where
  "prepare_batch self picks transition_queue =
     (case prepare_batch_setup self of
        Inl e \<Rightarrow> Inl e
      | Inr (memory, pace) \<Rightarrow>
          Inr (prepare_batch_loop self pace picks (memory, 0, transition_queue) []))"

subsection \<open>A configuration to evaluate on\<close>

text \<open>The settings of the specification's examples: linear schedule from 1.0 to 0.1 with
  decays 100 and 200, memory size 100, warm-up 20, batch size 8.\<close>

definition example_args :: "string init_args" where
  "example_args =
     \<lparr>action_space = MaskDiscrete 3, optimizer_type = ''adam'', batch_size = 8,
      discount = 9 / 10, eps_method = ''linear'', eps_start = 1, eps_end = 1 / 10,
      eps_decay = 100, eps_decay2 = 200, memory_size = 100, init_memory_size = 20,
      frame_step_ratio = 1, target_update_freq = 10, winning_rate_threshold = 1 / 2,
      difficulties = [''1'', ''2''], loss_type = ''mse''\<rparr>"

text \<open>The object that the constructor builds from these arguments.\<close>

definition example_agent :: "string agent" where
  "example_agent =
     \<lparr>self_batch_size = 8, self_discount = 9 / 10, self_eps_method = ''linear'',
      self_eps_start = 1, self_eps_end = 1 / 10, self_eps_decay = 100, self_eps_decay2 = 200,
      self_frame_step_ratio = 1, self_target_update_freq = 10,
      self_action_space = MaskDiscrete 3, self_memory_size = 100, self_init_memory_size = 20,
      self_loss_type = ''mse'', self_current_eps = 1, self_num_threads = 4,
      self_winning_rate_threshold = 1 / 2, self_difficulties = [''1'', ''2''],
      self_cur_difficulty_idx = 0, self_recent_outcomes = \<lparr>maxlen = 1000, items = []\<rparr>,
      self_optimizer = Adam\<rparr>"

subsection \<open>Invariant of the curriculum state\<close>


section \<open>Properties\<close>

subsection \<open>Backward accumulation\<close>











subsection \<open>Bounded deque\<close>

lemma maxlen_deque_append [simp]: "maxlen (deque_append d x) = maxlen d"
  by (simp add: deque_append_def)

lemma maxlen_foldl_deque_append [simp]: "maxlen (foldl deque_append d xs) = maxlen d"
  by (induction xs arbitrary: d) simp_all

lemma drop_window_snoc:
  "drop (Suc (length (drop (length ys - m) ys)) - m) (drop (length ys - m) ys @ [x]) =
     drop (Suc (length ys) - m) (ys @ [x])"
proof (cases "length ys < m")
  case True
  then show ?thesis by simp
next
  case False
  then have "Suc (length ys) - m = Suc (length ys - m)" by simp
  moreover have "Suc (length (drop (length ys - m) ys)) - m = Suc 0"
    using False by simp
  moreover have "drop (Suc (length ys - m)) (ys @ [x]) =
      drop (Suc 0) (drop (length ys - m) (ys @ [x]))"
    by simp
  ultimately show ?thesis by simp
qed

lemma items_deque_append:
  "items (deque_append d x) =
     (if maxlen d < Suc (length (items d)) then tl (items d @ [x]) else items d @ [x])"
  by (simp add: deque_append_def)

lemma items_foldl_deque_append:
  "length (items d) \<le> maxlen d \<Longrightarrow>
   items (foldl deque_append d xs) =
     drop (length (items d @ xs) - maxlen d) (items d @ xs)"
proof (induction xs rule: rev_induct)
  case Nil
  then show ?case by simp
next
  case (snoc x xs)
  let ?ys = "items d @ xs"
  let ?e = "foldl deque_append d xs"
  have it: "items ?e = drop (length ?ys - maxlen d) ?ys"
    using snoc by simp
  have "items (foldl deque_append d (xs @ [x])) = items (deque_append ?e x)"
    by simp
  also have "\<dots> = drop (Suc (length (items ?e)) - maxlen d) (items ?e @ [x])"
    by (cases "maxlen d < Suc (length (items ?e))")
       (auto simp: items_deque_append it drop_Suc simp del: drop_append length_append)
  also have "\<dots> = drop (Suc (length ?ys) - maxlen d) (?ys @ [x])"
    unfolding it by (rule drop_window_snoc)
  finally show ?case by simp
qed

lemma length_items_foldl_deque_append:
  "length (items d) \<le> maxlen d \<Longrightarrow> length (items (foldl deque_append d xs)) \<le> maxlen d"
  by (simp add: items_foldl_deque_append)

subsection \<open>Exploration-rate schedule\<close>

text \<open>
  C4. With the linear schedule and \<open>eps_start = 1.0\<close>, \<open>eps_end = 0.1\<close>,
  \<open>eps_decay = 100\<close>, \<open>eps_decay2 = 200\<close>, the rate returned for step \<open>t\<close> is
  exactly 1.0 at \<open>t = 0\<close>, exactly 0.1 at \<open>t = 100\<close>, strictly decreasing on
  \<open>[0, 100]\<close> and on \<open>[100, 200]\<close>, and exactly 0.01 for every \<open>t \<ge> 200\<close>.
\<close>

theorem linear_schedule_values:
  assumes "self_eps_method self = ''linear''" and "self_eps_start self = 1"
    and "self_eps_end self = 1 / 10" and "self_eps_decay self = 100"
    and "self_eps_decay2 self = 200"
  shows "get_current_eps self 0 = Inr 1
    \<and> get_current_eps self 100 = Inr (1 / 10)
    \<and> (\<forall>s t. 0 \<le> s \<and> s < t \<and> t \<le> 100 \<longrightarrow>
          (\<exists>a b. get_current_eps self s = Inr a \<and> get_current_eps self t = Inr b \<and> b < a))
    \<and> (\<forall>s t. 100 \<le> s \<and> s < t \<and> t \<le> 200 \<longrightarrow>
          (\<exists>a b. get_current_eps self s = Inr a \<and> get_current_eps self t = Inr b \<and> b < a))
    \<and> (\<forall>t \<ge> 200. get_current_eps self t = Inr (1 / 100))"
proof -
  define f :: "int \<Rightarrow> real" where
    "f t = (if t < 100 then 1 - (9 / 10) * real_of_int t / 100
            else if t < 200 then 1 / 10 - (9 / 100) * (real_of_int t - 100) / 200
            else 1 / 100)" for t
  have lin: "get_current_eps self t = Inr (f t)" for t
    unfolding get_current_eps_def assms f_def by simp
  have first: "f t < f s" if "0 \<le> s" "s < t" "t \<le> 100" for s t
  proof (cases "t < 100")
    case True
    with that show ?thesis by (simp add: f_def)
  next
    case False
    with that have t: "t = 100" by simp
    have "real_of_int s < 100" using that t by simp
    then show ?thesis using that t by (simp add: f_def)
  qed
  have second: "f t < f s" if "100 \<le> s" "s < t" "t \<le> 200" for s t
  proof (cases "t < 200")
    case True
    with that show ?thesis by (simp add: f_def)
  next
    case False
    with that have t: "t = 200" by simp
    have "real_of_int s < 200" using that t by simp
    then show ?thesis using that t by (simp add: f_def)
  qed
  have "f 0 = 1" "f 100 = 1 / 10" "\<And>t. 200 \<le> t \<Longrightarrow> f t = 1 / 100"
    by (simp_all add: f_def)
  then show ?thesis
    using first second unfolding lin by blast
qed

theorem linear_schedule_example:
  "\<exists>self. MCAgent_init example_args = Inr self
     \<and> self_eps_method self = ''linear'' \<and> self_eps_start self = 1
     \<and> self_eps_end self = 1 / 10 \<and> self_eps_decay self = 100 \<and> self_eps_decay2 self = 200
     \<and> get_current_eps self 0 = Inr 1
     \<and> get_current_eps self 100 = Inr (1 / 10)
     \<and> (0::int) \<le> 10 \<and> (10::int) < 20 \<and> (20::int) \<le> 100
     \<and> (\<exists>a b. get_current_eps self 10 = Inr a \<and> get_current_eps self 20 = Inr b \<and> b < a)
     \<and> (\<exists>a b. get_current_eps self 150 = Inr a \<and> get_current_eps self 200 = Inr b \<and> b < a)
     \<and> get_current_eps self 12345 = Inr (1 / 100)"
proof -
  obtain self where init: "MCAgent_init example_args = Inr (self :: string agent)"
    by (simp add: MCAgent_init_def example_args_def is_supported_space_def make_optimizer_def)
  then have cfg: "self_eps_method self = ''linear''" "self_eps_start self = 1"
      "self_eps_end self = 1 / 10" "self_eps_decay self = 100" "self_eps_decay2 self = 200"
    by (auto simp: MCAgent_init_def example_args_def is_supported_space_def make_optimizer_def)
  note th = linear_schedule_values [OF cfg]
  have dec1: "\<exists>a b. get_current_eps self s = Inr a \<and> get_current_eps self t = Inr b \<and> b < a"
    if "0 \<le> s" "s < t" "t \<le> 100" for s t
    using th that by blast
  have dec2: "\<exists>a b. get_current_eps self s = Inr a \<and> get_current_eps self t = Inr b \<and> b < a"
    if "100 \<le> s" "s < t" "t \<le> 200" for s t
    using th that by blast
  have "\<exists>a b. get_current_eps self 10 = Inr a \<and> get_current_eps self 20 = Inr b \<and> b < a"
    by (rule dec1) simp_all
  moreover have "\<exists>a b. get_current_eps self 150 = Inr a \<and> get_current_eps self 200 = Inr b \<and> b < a"
    by (rule dec2) simp_all
  moreover have "get_current_eps self 12345 = Inr (1 / 100)"
    using th by simp
  moreover have "get_current_eps self 0 = Inr 1" "get_current_eps self 100 = Inr (1 / 10)"
    using th by blast+
  ultimately show ?thesis
    using init cfg by (intro exI [of _ self] conjI) simp_all
qed

subsection \<open>Curriculum controller\<close>






lemma update_curriculum_difficulty_frame:
  "self_difficulties (fst (update_curriculum_difficulty self drained)) = self_difficulties self
   \<and> maxlen (self_recent_outcomes (fst (update_curriculum_difficulty self drained))) =
       maxlen (self_recent_outcomes self)
   \<and> self_target_update_freq (fst (update_curriculum_difficulty self drained)) =
       self_target_update_freq self"
  by (auto simp: update_curriculum_difficulty_def Let_def deque_clear_def split: sum.splits)

lemma update_curriculum_difficulty_idx:
  "self_cur_difficulty_idx (fst (update_curriculum_difficulty self drained)) =
     self_cur_difficulty_idx self
   \<or> self_cur_difficulty_idx (fst (update_curriculum_difficulty self drained)) =
       self_cur_difficulty_idx self + 1
     \<and> self_cur_difficulty_idx self + 1 < int (length (self_difficulties self))
     \<and> items (self_recent_outcomes (fst (update_curriculum_difficulty self drained))) = []"
  by (auto simp: update_curriculum_difficulty_def Let_def deque_clear_def split: sum.splits)


lemma learn_loop_preserves:
  assumes eps: "\<And>s e. P s \<Longrightarrow> P (s\<lparr>self_current_eps := e\<rparr>)"
    and upd: "\<And>s drained. P s \<Longrightarrow> P (fst (update_curriculum_difficulty s drained))"
  shows "P self \<Longrightarrow> learn_loop self steps drains trace = (self', trace', err) \<Longrightarrow> P self'"
proof (induction self steps drains trace rule: learn_loop.induct)
  case (1 self steps trace)
  then show ?case by simp
next
  case (2 self steps drained rest trace)
  show ?case
  proof (cases "self_target_update_freq self = 0")
    case True
    with 2 show ?thesis by simp
  next
    case nz: False
    show ?thesis
    proof (cases "get_current_eps self steps")
      case (Inl e)
      with 2 nz show ?thesis by (simp add: Let_def)
    next
      case (Inr e1)
      let ?s1 = "self\<lparr>self_current_eps := e1\<rparr>"
      obtain self2 e2 where u: "update_curriculum_difficulty ?s1 drained = (self2, e2)"
        by (cases "update_curriculum_difficulty ?s1 drained") auto
      have "P ?s1"
        using 2(2) by (rule eps)
      then have inv2: "P self2"
        using upd [of ?s1 drained] u by simp
      show ?thesis
      proof (cases e2)
        case (Some e)
        with 2(3) nz Inr u inv2 show ?thesis by (simp add: Let_def)
      next
        case None
        show ?thesis
        proof (cases "optimize self2")
          case (Inl e)
          with 2(3) nz Inr u inv2 None show ?thesis by (simp add: Let_def)
        next
          case r: (Inr v)
          let ?tr = "(if steps mod self_target_update_freq self = 0
                      then trace @ [TargetUpdated] else trace)"
          have "learn_loop self2 (steps + 1) rest (?tr @ [Optimized]) = (self', trace', err)"
            using 2(3) nz Inr u None r by (simp add: Let_def)
          with 2(1) [OF nz refl Inr u [symmetric] None r inv2]
          show ?thesis by simp
        qed
      qed
    qed
  qed
qed


text \<open>What the theorem on a single update assumes of the object holds from the
  constructor on, through every run of the learner loop.\<close>

lemma learn_keeps_index_and_capacity:
  assumes "MCAgent_init args = Inr self0"
    and "learn self0 num_actor_workers drains = (self', trace, err)"
  shows "0 \<le> self_cur_difficulty_idx self' \<and> maxlen (self_recent_outcomes self') = 1000"
proof -
  let ?P = "\<lambda>s. 0 \<le> self_cur_difficulty_idx s \<and> maxlen (self_recent_outcomes s) = 1000"
  have run: "learn_loop self0 0 drains (init_parallel_actors self0 num_actor_workers) =
      (self', trace, err)"
    using assms(2) by (simp add: learn_def)
  show "?P self'"
  proof (rule learn_loop_preserves [where P = ?P, OF _ _ _ run])
    show "?P (s\<lparr>self_current_eps := e\<rparr>)" if "?P s" for s :: "'a agent" and e
      using that by simp
    show "?P (fst (update_curriculum_difficulty s drained))" if "?P s" for s :: "'a agent" and drained
      using that update_curriculum_difficulty_idx [of s drained]
        update_curriculum_difficulty_frame [of s drained]
      by auto
    show "?P self0"
      using assms(1) by (auto simp: MCAgent_init_def split: if_splits sum.splits)
  qed
qed





lemma more_foldl_deque_append [simp]:
  "deque.more (foldl deque_append d xs) = deque.more d"
  by (induction xs arbitrary: d) (simp_all add: deque_append_def)






subsection \<open>Unrecognised exploration schedule\<close>






subsection \<open>Faults inside an episode\<close>

text \<open>
  C9 (as amended). A fault raised while an actor worker runs an episode is not caught: it
  leaves the worker's loop and terminates the worker, and no further episode is started,
  however many would follow. When the fault is raised before the trajectory is complete
  (choosing the difficulty, creating or resetting the environment, selecting an action,
  stepping), nothing of that episode is pushed on either channel.
\<close>

theorem episode_fault_terminates_worker:
  "(run_episode fuel w pid levels gamma use_curriculum inp transition_queue outcome_queue =
      (transition_queue', outcome_queue', Raised e) \<longrightarrow>
    actor_worker fuel w pid levels gamma use_curriculum (inp # rest) episode_id
        transition_queue outcome_queue =
      (transition_queue', outcome_queue', episode_id + 1, Terminated e))
   \<and> (collect_trajectory fuel w pid levels use_curriculum inp = Some (Inl e) \<longrightarrow>
    actor_worker fuel w pid levels gamma use_curriculum (inp # rest) episode_id
        transition_queue outcome_queue =
      (transition_queue, outcome_queue, episode_id + 1, Terminated e))"
  by (simp add: run_episode_def)

lemma failing_env_collect:
  "collect_trajectory 5 failing_env 0 [''1'', ''2''] True
     \<lparr>clock_ms = 1000, cur_difficulty_idx_value = 0, current_eps_value = 1, choice = 0\<rparr> =
   Some (Inl (Fault ''step''))"
  by (simp add: collect_trajectory_def failing_env_def counting_env_def getitem_def
      numeral_eq_Suc)

theorem episode_fault_example:
  "collect_trajectory 5 failing_env 0 [''1'', ''2''] True
     \<lparr>clock_ms = 1000, cur_difficulty_idx_value = 0, current_eps_value = 1, choice = 0\<rparr> =
     Some (Inl (Fault ''step''))
   \<and> run_episode 5 failing_env 0 [''1'', ''2''] (9 / 10) True
       \<lparr>clock_ms = 1000, cur_difficulty_idx_value = 0, current_eps_value = 1, choice = 0\<rparr>
       [] [] =
     ([], [], Raised (Fault ''step''))
   \<and> actor_worker 5 failing_env 0 [''1'', ''2''] (9 / 10) True
       [\<lparr>clock_ms = 1000, cur_difficulty_idx_value = 0, current_eps_value = 1, choice = 0\<rparr>,
        \<lparr>clock_ms = 2000, cur_difficulty_idx_value = 0, current_eps_value = 1, choice = 0\<rparr>]
       0 [] [] =
     ([], [], 1, Terminated (Fault ''step''))"
  using episode_fault_terminates_worker [of 5 failing_env 0 "[''1'', ''2'']" "9 / 10" True
      "\<lparr>clock_ms = 1000, cur_difficulty_idx_value = 0, current_eps_value = 1, choice = 0\<rparr>"
      "[]" "[]" "[]" "[]" "Fault ''step''"
      "[\<lparr>clock_ms = 2000, cur_difficulty_idx_value = 0, current_eps_value = 1, choice = 0\<rparr>]" 0]
    failing_env_collect
  by (simp add: run_episode_def)

theorem worker_does_not_survive_fault:
  "actor_worker 5 failing_env 0 [''1'', ''2''] (9 / 10) True
       [\<lparr>clock_ms = 1000, cur_difficulty_idx_value = 0, current_eps_value = 1, choice = 0\<rparr>,
        \<lparr>clock_ms = 2000, cur_difficulty_idx_value = 0, current_eps_value = 1, choice = 0\<rparr>]
       0 [] [] =
     ([], [], 1, Terminated (Fault ''step''))
   \<and> actor_worker 5 counting_env 0 [''1'', ''2''] (9 / 10) True
       [\<lparr>clock_ms = 1000, cur_difficulty_idx_value = 0, current_eps_value = 1, choice = 0\<rparr>,
        \<lparr>clock_ms = 2000, cur_difficulty_idx_value = 0, current_eps_value = 1, choice = 0\<rparr>]
       0 [] [] =
     ([(2, 0, 1), (1, 0, 19 / 10), (0, 0, 271 / 100),
       (2, 0, 1), (1, 0, 19 / 10), (0, 0, 271 / 100)],
      [271 / 100, 271 / 100], 2, Looping)"
  by (simp add: run_episode_def collect_trajectory_def failing_env_def counting_env_def
      getitem_def finish_episode_def numeral_eq_Suc Let_def)

subsection \<open>Replay buffer of a batch thread\<close>









subsection \<open>Warm-up threshold and sample size\<close>

text \<open>
  C6. With the specification's settings (memory size 100, warm-up 20, batch size 8) a batch
  thread takes no sample while its buffer holds fewer than \<open>20 / 4 = 5\<close> transitions; with
  the fifth transition the buffer is warm, and the iteration does not push a batch:
  \<open>random.sample\<close> is asked for 8 of 5 transitions, raises \<open>ValueError\<close>, and the thread
  ends.
\<close>

theorem warm_thread_fails_to_sample:
  "MCAgent_init example_args = Inr example_agent
   \<and> prepare_batch example_agent [[], [], [], []] [(0::nat, 0::nat, 1), (1, 0, 1), (2, 0, 1), (3, 0, 1)] =
       Inr ((\<lparr>maxlen = 25, items = [(0, 0, 1), (1, 0, 1), (2, 0, 1), (3, 0, 1)]\<rparr>, 4, []),
            [], Iterating)
   \<and> prepare_batch example_agent [[], [], [], [], [0, 1, 2, 3, 4, 0, 1, 2], []]
       [(0::nat, 0::nat, 1), (1, 0, 1), (2, 0, 1), (3, 0, 1), (4, 0, 1), (5, 0, 1)] =
       Inr ((\<lparr>maxlen = 25,
               items = [(0, 0, 1), (1, 0, 1), (2, 0, 1), (3, 0, 1), (4, 0, 1)]\<rparr>, 5, [(5, 0, 1)]),
            [], Died ValueError)"
proof -
  have "MCAgent_init example_args = Inr example_agent"
    by (simp add: MCAgent_init_def example_args_def example_agent_def is_supported_space_def
        make_optimizer_def)
  moreover have "prepare_batch example_agent [[], [], [], []]
       [(0::nat, 0::nat, 1), (1, 0, 1), (2, 0, 1), (3, 0, 1)] =
       Inr ((\<lparr>maxlen = 25, items = [(0, 0, 1), (1, 0, 1), (2, 0, 1), (3, 0, 1)]\<rparr>, 4, []),
            [], Iterating)"
    by (simp add: prepare_batch_def prepare_batch_setup_def prepare_batch_iteration_def
        example_agent_def deque_new_def deque_append_def py_int_def random_sample_def
        transitions_to_batch_def Let_def)
  moreover have "prepare_batch example_agent [[], [], [], [], [0, 1, 2, 3, 4, 0, 1, 2], []]
       [(0::nat, 0::nat, 1), (1, 0, 1), (2, 0, 1), (3, 0, 1), (4, 0, 1), (5, 0, 1)] =
       Inr ((\<lparr>maxlen = 25,
               items = [(0, 0, 1), (1, 0, 1), (2, 0, 1), (3, 0, 1), (4, 0, 1)]\<rparr>, 5, [(5, 0, 1)]),
            [], Died ValueError)"
    by (simp add: prepare_batch_def prepare_batch_setup_def prepare_batch_iteration_def
        example_agent_def deque_new_def deque_append_def py_int_def random_sample_def
        transitions_to_batch_def Let_def)
  ultimately show ?thesis by blast
qed

text \<open>
  C10. The constructor raises the warm-up size to \<open>max(init_memory_size, batch_size)\<close>,
  but the thread compares its buffer with a quarter of it. With \<open>init_memory_size = 4\<close> and
  \<open>batch_size = 8\<close> the effective warm-up size is 8 and the thread's threshold is 2: with
  two transitions in its buffer the thread calls \<open>random.sample\<close> for 8 items, whose
  precondition fails.
\<close>

theorem sample_precondition_violated:
  "MCAgent_init (example_args\<lparr>init_memory_size := 4\<rparr>) =
     Inr (example_agent\<lparr>self_init_memory_size := 8\<rparr>)
   \<and> self_init_memory_size (example_agent\<lparr>self_init_memory_size := 8\<rparr>) =
       max 4 (self_batch_size example_agent)
   \<and> prepare_batch_iteration (example_agent\<lparr>self_init_memory_size := 8\<rparr>) (FramesPerStep 1)
       [0, 1, 0, 1, 0, 1, 0, 1]
       (\<lparr>maxlen = 25, items = [(0::nat, 0::nat, 1)]\<rparr>, 1, [(1, 0, 1)]) =
     ((\<lparr>maxlen = 25, items = [(0, 0, 1), (1, 0, 1)]\<rparr>, 2, []), Failed ValueError)
   \<and> random_sample [0, 1, 0, 1, 0, 1, 0, 1] [(0::nat, 0::nat, 1::real), (1, 0, 1)]
       (self_batch_size (example_agent\<lparr>self_init_memory_size := 8\<rparr>)) = Inl ValueError"
  by (simp add: MCAgent_init_def example_args_def example_agent_def is_supported_space_def
      make_optimizer_def prepare_batch_iteration_def deque_append_def random_sample_def Let_def)

subsection \<open>Action masking\<close>

lemma argmax_less: "row \<noteq> [] \<Longrightarrow> argmax row < length row"
  by (induction row rule: argmax.induct) (auto simp: Let_def)

lemma qless_irrefl [simp]: "\<not> qless v v"
  by (cases v) simp_all

lemma qless_trans: "qless a b \<Longrightarrow> qless b c \<Longrightarrow> qless a c"
  by (cases a; cases b; cases c) simp_all

lemma not_qless_trans: "\<not> qless a b \<Longrightarrow> \<not> qless b c \<Longrightarrow> \<not> qless a c"
  by (cases a; cases b; cases c) simp_all

lemma argmax_greatest:
  "j < length row \<Longrightarrow> \<not> qless (row ! argmax row) (row ! j)"
proof (induction row arbitrary: j rule: argmax.induct)
  case 1
  then show ?case by simp
next
  case (2 x)
  then show ?case by simp
next
  case (3 x y ys)
  let ?m = "argmax (y # ys)"
  show ?case
  proof (cases "qless x ((y # ys) ! ?m)")
    case True
    then have am: "argmax (x # y # ys) = Suc ?m" by (simp add: Let_def)
    show ?thesis
    proof (cases j)
      case 0
      have "\<not> qless ((y # ys) ! ?m) x"
        using True by (cases x; cases "(y # ys) ! ?m") auto
      with 0 show ?thesis by (simp add: am del: argmax.simps)
    next
      case (Suc k)
      with 3 show ?thesis by (simp add: am del: argmax.simps)
    qed
  next
    case False
    then have am: "argmax (x # y # ys) = 0" by (simp add: Let_def)
    show ?thesis
    proof (cases j)
      case 0
      then show ?thesis by (simp add: am del: argmax.simps)
    next
      case (Suc k)
      with "3.prems" have k: "k < length (y # ys)" by simp
      have "\<not> qless ((y # ys) ! ?m) ((y # ys) ! k)"
        using "3.IH" [OF k] .
      with False have "\<not> qless x ((y # ys) ! k)"
        by (rule not_qless_trans)
      with Suc show ?thesis by (simp add: am del: argmax.simps)
    qed
  qed
qed


lemma preprocess_observation_masked:
  "preprocess_observation (MaskDiscrete n) (feats @ [action_mask]) =
     Inr (if length feats = 1 then Single (hd feats) else Tuple feats, Some action_mask)"
  by (simp add: preprocess_observation_def Let_def)

lemma nonzero_valid:
  "distinct (nonzero action_mask)
   \<and> set (nonzero action_mask) = {i. i < length action_mask \<and> action_mask ! i \<noteq> 0}"
  by (auto simp: nonzero_def)

lemma act_exploit_masked:
  assumes "eps \<le> u"
  shows "act (MaskDiscrete n) q_network u (feats @ [action_mask]) eps =
     (case mask_fill
             (q_network (if length feats = 1 then Single [hd feats]
                         else Tuple (map (\<lambda>array. [array]) feats)))
             (Some [action_mask]) of
        Inl e \<Rightarrow> Inl e
      | Inr q \<Rightarrow>
          (case q of
             [] \<Rightarrow> Inl IndexError
           | row # rows \<Rightarrow>
               if row = [] then Inl (Fault ''max of an empty row'')
               else Inr (Action (argmax row))))"
proof -
  have "preprocess_observation (MaskDiscrete n) (map (\<lambda>array. [array]) (feats @ [action_mask])) =
      Inr (if length feats = 1 then Single [hd feats]
           else Tuple (map (\<lambda>array. [array]) feats), Some [action_mask])"
    using preprocess_observation_masked [of n "map (\<lambda>array. [array]) feats" "[action_mask]"]
    by (cases feats) simp_all
  then show ?thesis
    using assms by (simp add: act_def)
qed

lemma act_explore_masked:
  assumes "u < eps"
  shows "act (MaskDiscrete n) q_network u (feats @ [action_mask]) eps =
     Inr (SampleFrom (nonzero action_mask))"
  using assms by (simp add: act_def preprocess_observation_masked)

lemma masked_argmax_valid:
  assumes len: "length row = length action_mask"
    and some: "\<exists>i < length action_mask. action_mask ! i \<noteq> 0"
  defines "filled \<equiv> map2 (\<lambda>v m. if m = 0 then NegInf else Fin v) row action_mask"
  shows "filled \<noteq> []" and "argmax filled < length action_mask"
    and "action_mask ! argmax filled \<noteq> 0"
    and "\<forall>j < length action_mask. action_mask ! j \<noteq> 0 \<longrightarrow> row ! j \<le> row ! argmax filled"
proof -
  have flen: "length filled = length action_mask"
    by (simp add: filled_def len)
  have fnth: "filled ! i = (if action_mask ! i = 0 then NegInf else Fin (row ! i))"
    if "i < length action_mask" for i
    using that len by (simp add: filled_def)
  from some obtain i where i: "i < length action_mask" "action_mask ! i \<noteq> 0"
    by blast
  then show ne: "filled \<noteq> []"
    using flen by auto
  then show a: "argmax filled < length action_mask"
    using argmax_less [of filled] flen by simp
  have great: "\<not> qless (filled ! argmax filled) (filled ! j)" if "j < length action_mask" for j
    using argmax_greatest [of j filled] that flen by simp
  show valid: "action_mask ! argmax filled \<noteq> 0"
  proof
    assume "action_mask ! argmax filled = 0"
    then have "filled ! argmax filled = NegInf"
      using fnth [OF a] by simp
    moreover have "filled ! i = Fin (row ! i)"
      using fnth [OF i(1)] i(2) by simp
    ultimately show False
      using great [OF i(1)] by simp
  qed
  show "\<forall>j < length action_mask. action_mask ! j \<noteq> 0 \<longrightarrow> row ! j \<le> row ! argmax filled"
  proof (intro allI impI)
    fix j assume j: "j < length action_mask" "action_mask ! j \<noteq> 0"
    have "filled ! j = Fin (row ! j)"
      using fnth [OF j(1)] j(2) by simp
    moreover have "filled ! argmax filled = Fin (row ! argmax filled)"
      using fnth [OF a] valid by simp
    ultimately show "row ! j \<le> row ! argmax filled"
      using great [OF j(1)] by simp
  qed
qed


text \<open>
  C7 (as amended). With a maskable discrete action space and an observation tuple whose
  last element is the mask, \<open>preprocess_observation\<close> returns that last element as the
  mask and the tuple without it (unwrapped when one array is left) as the observation, and
  this stripped observation is what the network is called with. In the exploitation branch
  (\<open>eps \<le> u\<close>), when the network returns one row of as many values as the mask has entries
  and at least one mask entry is non-zero, the action returned is one whose mask entry is
  non-zero and whose value is greatest among those. In the exploration branch (\<open>u < eps\<close>)
  the action is the one \<open>action_space.sample\<close> returns for exactly the actions whose mask
  entry is non-zero, each listed once.
\<close>

theorem masked_action_selection:
  "preprocess_observation (MaskDiscrete n) (feats @ [action_mask]) =
     Inr (if length feats = 1 then Single (hd feats) else Tuple feats, Some action_mask)
   \<and> (eps \<le> u
        \<and> q_network (if length feats = 1 then Single [hd feats]
                      else Tuple (map (\<lambda>array. [array]) feats)) = [row]
        \<and> length row = length action_mask
        \<and> (\<exists>i < length action_mask. action_mask ! i \<noteq> 0) \<longrightarrow>
       (\<exists>a. act (MaskDiscrete n) q_network u (feats @ [action_mask]) eps = Inr (Action a)
          \<and> a < length action_mask \<and> action_mask ! a \<noteq> 0
          \<and> (\<forall>j < length action_mask. action_mask ! j \<noteq> 0 \<longrightarrow> row ! j \<le> row ! a)))
   \<and> (u < eps \<longrightarrow>
       act (MaskDiscrete n) q_network u (feats @ [action_mask]) eps =
         Inr (SampleFrom (nonzero action_mask))
       \<and> distinct (nonzero action_mask)
       \<and> set (nonzero action_mask) = {i. i < length action_mask \<and> action_mask ! i \<noteq> 0})"
proof (intro conjI impI)
  show "preprocess_observation (MaskDiscrete n) (feats @ [action_mask]) =
     Inr (if length feats = 1 then Single (hd feats) else Tuple feats, Some action_mask)"
    by (rule preprocess_observation_masked)
next
  assume a: "eps \<le> u
      \<and> q_network (if length feats = 1 then Single [hd feats]
                    else Tuple (map (\<lambda>array. [array]) feats)) = [row]
      \<and> length row = length action_mask
      \<and> (\<exists>i < length action_mask. action_mask ! i \<noteq> 0)"
  let ?filled = "map2 (\<lambda>v m. if m = 0 then NegInf else Fin v) row action_mask"
  have len: "length row = length action_mask"
    and some: "\<exists>i < length action_mask. action_mask ! i \<noteq> 0"
    and net: "q_network (if length feats = 1 then Single [hd feats]
                         else Tuple (map (\<lambda>array. [array]) feats)) = [row]"
    and exploit: "eps \<le> u"
    using a by blast+
  note v = masked_argmax_valid [OF len some]
  have fill: "mask_fill [row] (Some [action_mask]) = Inr [?filled]"
    using len by (simp add: mask_fill_def)
  have "act (MaskDiscrete n) q_network u (feats @ [action_mask]) eps =
      Inr (Action (argmax ?filled))"
    using v(1) by (simp only: act_exploit_masked [OF exploit] net fill) simp
  with v(2,3,4)
  show "\<exists>a. act (MaskDiscrete n) q_network u (feats @ [action_mask]) eps = Inr (Action a)
      \<and> a < length action_mask \<and> action_mask ! a \<noteq> 0
      \<and> (\<forall>j < length action_mask. action_mask ! j \<noteq> 0 \<longrightarrow> row ! j \<le> row ! a)"
    by blast
next
  assume "u < eps"
  then show "act (MaskDiscrete n) q_network u (feats @ [action_mask]) eps =
      Inr (SampleFrom (nonzero action_mask))"
    by (rule act_explore_masked)
next
  show "distinct (nonzero action_mask)"
    using nonzero_valid by blast
next
  show "set (nonzero action_mask) = {i. i < length action_mask \<and> action_mask ! i \<noteq> 0}"
    using nonzero_valid by blast
qed

theorem masked_action_selection_example:
  "(0::real) \<le> 1 \<and> (\<lambda>x. [[9, 2, 3]]) (Single [[5::real]]) = [[9, 2, 3 :: real]]
   \<and> length [9, 2, 3 :: real] = length [0, 1, 1 :: real]
   \<and> (1::nat) < length [0, 1, 1 :: real] \<and> [0, 1, 1 :: real] ! 1 \<noteq> 0
   \<and> act (MaskDiscrete 3) (\<lambda>x. [[9, 2, 3]]) 1 [[5], [0, 1, 1]] 0 = Inr (Action 2)
   \<and> (0::real) < 1
   \<and> act (MaskDiscrete 3) (\<lambda>x. [[9, 2, 3]]) 0 [[5], [0, 1, 1]] 1 = Inr (SampleFrom [1, 2])"
proof -
  let ?net = "\<lambda>x :: real list list network_input. [[9, 2, 3 :: real]]"
  note th = masked_action_selection [of 3 "[[5]]" "[0, 1, 1]" _ _ ?net "[9, 2, 3]"]
  have some: "\<exists>i < length [0, 1, 1 :: real]. [0, 1, 1 :: real] ! i \<noteq> 0"
    by (rule exI [of _ 1]) simp
  have "\<exists>a. act (MaskDiscrete 3) ?net 1 ([[5]] @ [[0, 1, 1]]) 0 = Inr (Action a)
      \<and> a < length [0, 1, 1 :: real] \<and> [0, 1, 1 :: real] ! a \<noteq> 0
      \<and> (\<forall>j < length [0, 1, 1 :: real]. [0, 1, 1 :: real] ! j \<noteq> 0 \<longrightarrow>
            [9, 2, 3 :: real] ! j \<le> [9, 2, 3 :: real] ! a)"
    using th [of 0 1] some by simp
  then obtain a where a: "act (MaskDiscrete 3) ?net 1 [[5], [0, 1, 1]] 0 = Inr (Action a)"
      "a < 3" "[0, 1, 1 :: real] ! a \<noteq> 0"
      "\<forall>j < 3. [0, 1, 1 :: real] ! j \<noteq> 0 \<longrightarrow> [9, 2, 3 :: real] ! j \<le> [9, 2, 3 :: real] ! a"
    by auto
  have "a = 2"
  proof -
    from a(2) have "a = 0 \<or> a = 1 \<or> a = 2" by auto
    moreover have "a \<noteq> 0"
    proof
      assume "a = 0"
      with a(3) show False by simp
    qed
    moreover have "a \<noteq> 1"
    proof
      assume "a = 1"
      with a(4) [rule_format, of 2] show False by simp
    qed
    ultimately show ?thesis by blast
  qed
  with a(1) have exploit: "act (MaskDiscrete 3) ?net 1 [[5], [0, 1, 1]] 0 = Inr (Action 2)"
    by simp
  have "act (MaskDiscrete 3) ?net 0 ([[5]] @ [[0, 1, 1]]) 1 = Inr (SampleFrom (nonzero [0, 1, 1]))"
    using th [of 1 0] by simp
  moreover have "nonzero [0, 1, 1] = [1, 2]"
    by (simp add: nonzero_def upt_rec)
  ultimately have explore: "act (MaskDiscrete 3) ?net 0 [[5], [0, 1, 1]] 1 = Inr (SampleFrom [1, 2])"
    by simp
  show ?thesis
    using exploit explore by simp
qed

theorem fully_masked_greedy_action_invalid:
  "act (MaskDiscrete 2) (\<lambda>x. [[1, 2]]) 1 [[5], [0, 0]] 0 = Inr (Action 0)
   \<and> [0, 0 :: real] ! 0 = 0"
  by (simp add: act_def preprocess_observation_def mask_fill_def Let_def)

end
